theory Spec2Isabelle
  imports Complex_Main "HOL-Library.Word"
begin

section \<open>rio\_tiler.reader: values shared by the four entry points\<close>

text \<open>
  The module \<^verbatim>\<open>rio_tiler/reader.py\<close> holds four functions: \<^verbatim>\<open>read\<close>,
  \<^verbatim>\<open>part\<close>, \<^verbatim>\<open>preview\<close> and \<^verbatim>\<open>point\<close>. They orchestrate
  a raster library (rasterio, numpy, affine) and four helpers of \<^verbatim>\<open>rio_tiler.utils\<close>.
  Python floats are modelled as exact reals: rounding, infinities and NaN are left out.
  Warnings (\<^verbatim>\<open>warnings.warn\<close>) do not change any result and are not modelled.
  A raised exception is the \<open>Inl\<close> branch of the result.
\<close>

type_synonym crs = string

text \<open>A bounding box is the tuple (left, bottom, right, top).\<close>

type_synonym bbox = "real \<times> real \<times> real \<times> real"

type_synonym uint8 = "8 word"

text \<open>Pixel data is indexed [band][row][column], a mask [row][column].\<close>

type_synonym data_array = "real list list list"

type_synonym mask_array = "uint8 list list"

datatype py_error =
    ZeroDivisionError
  | IndexError
  | TileOutsideBounds string
  | PointOutsideBounds string

text \<open>
  \<^verbatim>\<open>affine.Affine(a, b, c, d, e, f)\<close>: the matrix rows (a b c) and (d e f); the
  product is the matrix product, and a transform maps a pixel (col, row) to a coordinate.
\<close>

datatype affine = Affine real real real real real real

fun affine_mul :: "affine \<Rightarrow> affine \<Rightarrow> affine" where
  "affine_mul (Affine sa sb sc sd se sf) (Affine oa ob oc od oe of') =
     Affine (sa * oa + sb * od) (sa * ob + sb * oe) (sa * oc + sb * of' + sc)
            (sd * oa + se * od) (sd * ob + se * oe) (sd * oc + se * of' + sf)"

definition translation :: "real \<Rightarrow> real \<Rightarrow> affine" where
  "translation xoff yoff = Affine 1 0 xoff 0 1 yoff"

fun affine_apply :: "affine \<Rightarrow> real \<times> real \<Rightarrow> real \<times> real" where
  "affine_apply (Affine sa sb sc sd se sf) (x, y) = (sa * x + sb * y + sc, sd * x + se * y + sf)"

text \<open>\<^verbatim>\<open>rasterio.windows.Window(col_off, row_off, width, height)\<close>.\<close>

datatype window = Window (col_off: int) (row_off: int) (win_width: int) (win_height: int)

text \<open>The values a warp-option dictionary holds.\<close>

datatype pyval =
    PyNone
  | PyBool bool
  | PyInt int
  | PyNum real
  | PyStr string
  | PyCRS crs
  | PyResampling string
  | PyAffine affine

type_synonym pydict = "string \<rightharpoonup> pyval"

text \<open>The members of \<^verbatim>\<open>rasterio.enums.ColorInterp\<close>.\<close>

datatype ColorInterp =
    CI_undefined | CI_gray | CI_palette | CI_red | CI_green | CI_blue | CI_alpha
  | CI_hue | CI_saturation | CI_lightness | CI_cyan | CI_magenta | CI_yellow | CI_black
  | CI_Y | CI_Cb | CI_Cr

text \<open>
  The attributes of the source dataset that the module reads: \<^verbatim>\<open>crs\<close>,
  \<^verbatim>\<open>bounds\<close>, \<^verbatim>\<open>height\<close>, \<^verbatim>\<open>width\<close>, \<^verbatim>\<open>nodata\<close> and
  \<^verbatim>\<open>indexes\<close>.
\<close>

record dataset =
  ds_crs :: crs
  ds_bounds :: bbox
  ds_height :: int
  ds_width :: int
  ds_nodata :: "real option"
  ds_indexes :: "int list"

text \<open>
  What \<^verbatim>\<open>WarpedVRT.sample\<close> yields for one coordinate: a numpy masked array. Its
  \<^verbatim>\<open>mask\<close> flag is True for a sample that is masked out (the docstring of
  \<^verbatim>\<open>point\<close>: "Mask samples that fall outside the extent of the dataset"), False for
  a valid one.
\<close>

record masked_array =
  ma_data :: "real list"
  ma_mask :: "bool list"

text \<open>
  The opened \<^verbatim>\<open>WarpedVRT\<close>: its \<^verbatim>\<open>colorinterp\<close>, \<^verbatim>\<open>scales\<close> and
  \<^verbatim>\<open>offsets\<close> attributes and its \<^verbatim>\<open>read\<close>, \<^verbatim>\<open>dataset_mask\<close> and
  \<^verbatim>\<open>sample\<close> methods, with the keyword arguments the module passes, in its order:
  \<^verbatim>\<open>read(indexes, window, out_shape, resampling)\<close>,
  \<^verbatim>\<open>dataset_mask(window, out_shape, resampling)\<close>,
  \<^verbatim>\<open>sample([(x, y)], indexes, masked)\<close> (the first and only element).
\<close>

record vrt =
  vrt_colorinterp :: "ColorInterp list"
  vrt_scales :: "real list"
  vrt_offsets :: "real list"
  vrt_read :: "int list \<Rightarrow> window option \<Rightarrow> (nat \<times> int \<times> int) option \<Rightarrow> string \<Rightarrow> data_array"
  vrt_dataset_mask :: "window option \<Rightarrow> (int \<times> int) option \<Rightarrow> string \<Rightarrow> mask_array"
  vrt_sample :: "real \<times> real \<Rightarrow> int list \<Rightarrow> bool \<Rightarrow> masked_array"

text \<open>
  Everything the module imports and calls: the coordinate transforms of rasterio, the
  \<^verbatim>\<open>WarpedVRT\<close> constructor, numpy's cast to uint8, and the helpers of
  \<^verbatim>\<open>rio_tiler.utils\<close> (\<^verbatim>\<open>get_vrt_transform\<close>, which returns the transform, the
  width and the height; \<^verbatim>\<open>_requested_tile_aligned_with_internal_tile\<close>, imported as
  \<^verbatim>\<open>is_aligned\<close>; \<^verbatim>\<open>has_alpha_band\<close>; \<^verbatim>\<open>non_alpha_indexes\<close>). Their code
  is outside this module, so they are parameters of the model.
\<close>

record env =
  transform_bounds :: "crs \<Rightarrow> crs \<Rightarrow> bbox \<Rightarrow> bbox"
  transform_coords :: "crs \<Rightarrow> crs \<Rightarrow> real \<Rightarrow> real \<Rightarrow> real \<times> real"
  get_vrt_transform :: "dataset \<Rightarrow> bbox \<Rightarrow> int option \<Rightarrow> int option \<Rightarrow> crs \<Rightarrow> affine \<times> int \<times> int"
  is_aligned :: "dataset \<Rightarrow> bbox \<Rightarrow> int \<Rightarrow> int \<Rightarrow> crs \<Rightarrow> bool"
  has_alpha_band :: "dataset \<Rightarrow> bool"
  non_alpha_indexes :: "dataset \<Rightarrow> int list"
  WarpedVRT :: "dataset \<Rightarrow> pydict \<Rightarrow> vrt"
  astype_uint8 :: "real \<Rightarrow> uint8"

text \<open>\<^verbatim>\<open>indexes\<close> is a sequence of band indexes or one int.\<close>

datatype indexes_arg = IdxInt int | IdxSeq "int list"

text \<open>
  The \<^verbatim>\<open>post_process\<close> callable of \<^verbatim>\<open>read\<close>, and that of \<^verbatim>\<open>point\<close>,
  which receives the one-dimensional sample and its mask.
\<close>

type_synonym post_process = "data_array \<Rightarrow> mask_array \<Rightarrow> data_array \<times> mask_array"

type_synonym point_post_process = "real list \<Rightarrow> int list \<Rightarrow> real list \<times> int list"

subsection \<open>Python truthiness of optional numbers\<close>

text \<open>\<^verbatim>\<open>if x:\<close> on an optional number: false for None and for zero.\<close>

definition truthy :: "int option \<Rightarrow> bool" where
  "truthy x = (case x of None \<Rightarrow> False | Some v \<Rightarrow> v \<noteq> 0)"

definition truthy_float :: "real option \<Rightarrow> bool" where
  "truthy_float x = (case x of None \<Rightarrow> False | Some v \<Rightarrow> v \<noteq> 0)"

text \<open>\<^verbatim>\<open>x or y\<close>.\<close>

definition py_or :: "int option \<Rightarrow> int \<Rightarrow> int" where
  "py_or x y = (case x of None \<Rightarrow> y | Some v \<Rightarrow> if v \<noteq> 0 then v else y)"

subsection \<open>Helpers for lists as arrays\<close>

text \<open>\<^verbatim>\<open>xs.index(x)\<close>, called only where \<^verbatim>\<open>x in xs\<close> holds.\<close>

fun index_of :: "'a \<Rightarrow> 'a list \<Rightarrow> nat" where
  "index_of x [] = 0"
| "index_of x (y # ys) = (if x = y then 0 else Suc (index_of x ys))"

text \<open>An elementwise numpy operation on a three-dimensional array.\<close>

definition map3 :: "('a \<Rightarrow> 'b) \<Rightarrow> 'a list list list \<Rightarrow> 'b list list list" where
  "map3 g arr = map (map (map g)) arr"

section \<open>read\<close>

text \<open>
  Lines 61 to 67 and 80 to 81: the parameters of the virtual view. \<^verbatim>\<open>dict.update\<close>
  is \<open>++\<close>. Updating with an empty dictionary changes nothing, so the test
  \<^verbatim>\<open>if vrt_options:\<close> only separates None from a dictionary.
\<close>

definition read_vrt_params :: "env \<Rightarrow> dataset \<Rightarrow> real option \<Rightarrow> string \<Rightarrow> pydict option \<Rightarrow> pydict" where
  "read_vrt_params E src_dst nodata resampling_method vrt_options =
     (let vrt_params = [''add_alpha'' \<mapsto> PyBool True, ''resampling'' \<mapsto> PyResampling resampling_method];
          nodata = (case nodata of Some v \<Rightarrow> Some v | None \<Rightarrow> ds_nodata src_dst);
          vrt_params = (case nodata of
                          Some v \<Rightarrow> vrt_params ++
                            [''nodata'' \<mapsto> PyNum v, ''add_alpha'' \<mapsto> PyBool False, ''src_nodata'' \<mapsto> PyNum v]
                        | None \<Rightarrow> vrt_params);
          vrt_params = (if has_alpha_band E src_dst
                        then vrt_params ++ [''add_alpha'' \<mapsto> PyBool False] else vrt_params)
      in case vrt_options of Some opts \<Rightarrow> vrt_params ++ opts | None \<Rightarrow> vrt_params)"

text \<open>Lines 76 and 77: the output shapes requested from the windowed read.\<close>

definition read_out_shape :: "nat \<Rightarrow> int option \<Rightarrow> int option \<Rightarrow> (nat \<times> int \<times> int) option" where
  "read_out_shape n height width =
     (case (height, width) of
        (Some h, Some w) \<Rightarrow> if h \<noteq> 0 \<and> w \<noteq> 0 then Some (n, h, w) else None
      | _ \<Rightarrow> None)"

definition read_mask_out_shape :: "int option \<Rightarrow> int option \<Rightarrow> (int \<times> int) option" where
  "read_mask_out_shape height width =
     (case (height, width) of
        (Some h, Some w) \<Rightarrow> if h \<noteq> 0 \<and> w \<noteq> 0 then Some (h, w) else None
      | _ \<Rightarrow> None)"

text \<open>
  Lines 84 to 108, inside the opened view. With an alpha band in the view its index is
  appended, one read fetches all bands and the last band becomes the mask
  (\<^verbatim>\<open>data[-1]\<close> raises IndexError on an array without bands); otherwise the mask is
  the view's dataset mask. The height and width of a given \<^verbatim>\<open>out_shape\<close> are the
  arguments \<^verbatim>\<open>height\<close> and \<^verbatim>\<open>width\<close>.
\<close>

definition read_data_mask ::
  "env \<Rightarrow> vrt \<Rightarrow> int list \<Rightarrow> window option \<Rightarrow> (nat \<times> int \<times> int) option \<Rightarrow> (int \<times> int) option \<Rightarrow> string
     \<Rightarrow> py_error + (data_array \<times> mask_array)" where
  "read_data_mask E v indexes window out_shape mask_out_shape resampling =
     (if CI_alpha \<in> set (vrt_colorinterp v) then
        (let idx = int (index_of CI_alpha (vrt_colorinterp v)) + 1;
             indexes = indexes @ [idx];
             out_shape = (case out_shape of
                            Some (_, height, width) \<Rightarrow> Some (length indexes, height, width)
                          | None \<Rightarrow> None);
             data = vrt_read v indexes window out_shape resampling
         in if data = [] then Inl IndexError
            else Inr (butlast data, map (map (astype_uint8 E)) (last data)))
      else
        Inr (vrt_read v indexes window out_shape resampling,
             vrt_dataset_mask v window mask_out_shape resampling))"

text \<open>Line 111: \<^verbatim>\<open>numpy.where(mask != 0, numpy.uint8(255), numpy.uint8(0))\<close>.\<close>

definition binary_mask :: "mask_array \<Rightarrow> mask_array" where
  "binary_mask msk = map (map (\<lambda>m. if m \<noteq> 0 then 255 else 0)) msk"

text \<open>
  Lines 114 to 116: the cast to float32 (the identity on reals), the in-place product
  with \<^verbatim>\<open>vrt.scales[0]\<close>, then the in-place sum with \<^verbatim>\<open>vrt.offsets[0]\<close>.
\<close>

definition unscale_data :: "vrt \<Rightarrow> data_array \<Rightarrow> py_error + data_array" where
  "unscale_data v data =
     (case vrt_scales v of
        [] \<Rightarrow> Inl IndexError
      | scale0 # _ \<Rightarrow>
          (let data = map3 (\<lambda>x. x * scale0) data
           in case vrt_offsets v of
                [] \<Rightarrow> Inl IndexError
              | offset0 # _ \<Rightarrow> Inr (map3 (\<lambda>x. x + offset0) data)))"

text \<open>
  Lines 58 to 59 and 69 to 70: one int becomes a one-element tuple, and no indexes become
  the non-alpha indexes of the dataset.
\<close>

definition read_indexes :: "env \<Rightarrow> dataset \<Rightarrow> indexes_arg option \<Rightarrow> int list" where
  "read_indexes E src_dst indexes =
     (case indexes of
        Some (IdxInt i) \<Rightarrow> [i]
      | Some (IdxSeq s) \<Rightarrow> s
      | None \<Rightarrow> non_alpha_indexes E src_dst)"

definition read ::
  "env \<Rightarrow> dataset \<Rightarrow> int option \<Rightarrow> int option \<Rightarrow> indexes_arg option \<Rightarrow> window option \<Rightarrow> bool
     \<Rightarrow> real option \<Rightarrow> bool \<Rightarrow> string \<Rightarrow> pydict option \<Rightarrow> post_process option
     \<Rightarrow> py_error + (data_array \<times> mask_array)" where
  "read E src_dst height width indexes window force_binary_mask nodata unscale
        resampling_method vrt_options post_process =
     (let indexes = read_indexes E src_dst indexes;
          out_shape = read_out_shape (length indexes) height width;
          mask_out_shape = read_mask_out_shape height width;
          resampling = resampling_method;
          v = WarpedVRT E src_dst (read_vrt_params E src_dst nodata resampling_method vrt_options)
      in case read_data_mask E v indexes window out_shape mask_out_shape resampling of
           Inl err \<Rightarrow> Inl err
         | Inr (data, msk) \<Rightarrow>
             (let msk = (if force_binary_mask then binary_mask msk else msk)
              in case (if unscale then unscale_data v data else Inr data) of
                   Inl err \<Rightarrow> Inl err
                 | Inr data \<Rightarrow>
                     (case post_process of
                        Some hook \<Rightarrow> Inr (hook data msk)
                      | None \<Rightarrow> Inr (data, msk))))"

text \<open>
  The keyword arguments that \<^verbatim>\<open>part\<close> and \<^verbatim>\<open>preview\<close> forward to
  \<^verbatim>\<open>read\<close> unchanged.
\<close>

record read_kwargs =
  kw_indexes :: "indexes_arg option"
  kw_force_binary_mask :: bool
  kw_nodata :: "real option"
  kw_unscale :: bool
  kw_resampling_method :: string
  kw_post_process :: "post_process option"

section \<open>part\<close>

subsection \<open>The message of TileOutsideBounds\<close>

text \<open>The decimal digits of a natural number, as \<^verbatim>\<open>str\<close> prints them.\<close>

fun str_nat :: "nat \<Rightarrow> string" where
  "str_nat n =
     (if n < 10 then [''0123456789'' ! n]
      else str_nat (n div 10) @ [''0123456789'' ! (n mod 10)])"

declare str_nat.simps [simp del]

text \<open>Rounding to the nearest integer, a tie to the even neighbour.\<close>

definition round_half_even :: "real \<Rightarrow> int" where
  "round_half_even x =
     (let n = \<lfloor>x\<rfloor>; frac = x - of_int n
      in if frac < 1 / 2 then n
         else if frac > 1 / 2 then n + 1
         else if even n then n else n + 1)"

text \<open>\<^verbatim>\<open>"{:.0f}".format(x)\<close>.\<close>

definition format_0f :: "real \<Rightarrow> string" where
  "format_0f x =
     (if x < 0 then ''-'' @ str_nat (nat (round_half_even (- x)))
      else str_nat (nat (round_half_even x)))"

subsection \<open>Lines 168 to 185: the overlap check\<close>

text \<open>
  The quotient of lines 172 to 180, for a requested box of non-zero area. Python raises
  ZeroDivisionError on a zero divisor; \<open>part_overlap\<close> below tests for it first.
\<close>

definition cover_ratio :: "bbox \<Rightarrow> bbox \<Rightarrow> real" where
  "cover_ratio src_bounds bounds =
     (case (src_bounds, bounds) of
        ((s0, s1, s2, s3), (b0, b1, b2, b3)) \<Rightarrow>
          (let x_overlap = max 0 (min s2 b2 - max s0 b0);
               y_overlap = max 0 (min s3 b3 - max s1 b1)
           in (x_overlap * y_overlap) / ((b2 - b0) * (b3 - b1))))"

definition bounds_area :: "bbox \<Rightarrow> real" where
  "bounds_area bounds = (case bounds of (b0, b1, b2, b3) \<Rightarrow> (b2 - b0) * (b3 - b1))"

definition part_overlap :: "env \<Rightarrow> dataset \<Rightarrow> crs \<Rightarrow> bbox \<Rightarrow> real option \<Rightarrow> py_error + unit" where
  "part_overlap E src_dst dst_crs bounds minimum_overlap =
     (if truthy_float minimum_overlap then
        (let src_bounds = transform_bounds E (ds_crs src_dst) dst_crs (ds_bounds src_dst)
         in if bounds_area bounds = 0 then Inl ZeroDivisionError
            else if cover_ratio src_bounds bounds < the minimum_overlap
            then Inl (TileOutsideBounds
                   (''Dataset covers less than '' @
                    format_0f (cover_ratio src_bounds bounds * 100) @ ''% of tile''))
            else Inr ())
      else Inr ())"

subsection \<open>Lines 193 to 201: the clamp to max\_size\<close>

text \<open>
  The result is the pair (height, width) after the block. \<^verbatim>\<open>vrt_height / vrt_width\<close>
  is a true division and raises ZeroDivisionError for a zero width.
\<close>

definition part_max_size ::
  "int option \<Rightarrow> int option \<Rightarrow> int option \<Rightarrow> int \<Rightarrow> int \<Rightarrow> py_error + (int option \<times> int option)" where
  "part_max_size max_size height width vrt_width vrt_height =
     (if truthy max_size \<and> \<not> (truthy width \<and> truthy height) then
        (if max vrt_width vrt_height > the max_size then
           (if vrt_width = 0 then Inl ZeroDivisionError
            else
              (let ratio = real_of_int vrt_height / real_of_int vrt_width
               in if ratio > 1 then
                    (let height = the max_size;
                         width = \<lceil>real_of_int height / ratio\<rceil>
                     in Inr (Some height, Some width))
                  else
                    (let width = the max_size;
                         height = \<lceil>real_of_int width * ratio\<rceil>
                     in Inr (Some height, Some width))))
         else Inr (height, width))
      else Inr (height, width))"

subsection \<open>Lines 205 to 216: the padding\<close>

text \<open>The result is (vrt\_transform, vrt\_width, vrt\_height, window) after the block.\<close>

definition part_padding ::
  "env \<Rightarrow> dataset \<Rightarrow> bbox \<Rightarrow> crs \<Rightarrow> int \<Rightarrow> int \<Rightarrow> int \<Rightarrow> affine \<Rightarrow> int \<Rightarrow> int
     \<Rightarrow> affine \<times> int \<times> int \<times> window" where
  "part_padding E src_dst bounds dst_crs padding out_height out_width vrt_transform vrt_width vrt_height =
     (if padding > 0 \<and> \<not> is_aligned E src_dst bounds out_height out_width dst_crs then
        (let vrt_transform' = affine_mul vrt_transform
                                (translation (- real_of_int padding) (- real_of_int padding));
             orig_vrt_height = vrt_height;
             orig_vrt_width = vrt_width;
             vrt_height' = vrt_height + 2 * padding;
             vrt_width' = vrt_width + 2 * padding;
             window = Window padding padding orig_vrt_width orig_vrt_height
         in (vrt_transform', vrt_width', vrt_height', window))
      else (vrt_transform, vrt_width, vrt_height, Window 0 0 vrt_width vrt_height))"

subsection \<open>The function\<close>

text \<open>Lines 156 and 157: the target CRS defaults to the dataset's.\<close>

definition part_dst_crs :: "dataset \<Rightarrow> crs option \<Rightarrow> crs" where
  "part_dst_crs src_dst dst_crs = (case dst_crs of None \<Rightarrow> ds_crs src_dst | Some c \<Rightarrow> c)"

text \<open>Lines 165 and 166: bounds given in another CRS are reprojected first.\<close>

definition part_bounds :: "env \<Rightarrow> crs \<Rightarrow> crs option \<Rightarrow> bbox \<Rightarrow> bbox" where
  "part_bounds E dst_crs bounds_crs bounds =
     (case bounds_crs of
        Some bc \<Rightarrow> transform_bounds E bc dst_crs bounds
      | None \<Rightarrow> bounds)"

text \<open>
  Lines 193 to 204: the clamp, then \<^verbatim>\<open>out_height = height or vrt_height\<close> and
  \<^verbatim>\<open>out_width = width or vrt_width\<close>. The result is (out\_height, out\_width);
  \<^verbatim>\<open>height\<close> and \<^verbatim>\<open>width\<close> are not read again after line 204.
\<close>

definition part_out_size ::
  "int option \<Rightarrow> int option \<Rightarrow> int option \<Rightarrow> int \<Rightarrow> int \<Rightarrow> py_error + (int \<times> int)" where
  "part_out_size max_size height width vrt_width vrt_height =
     (case part_max_size max_size height width vrt_width vrt_height of
        Inl err \<Rightarrow> Inl err
      | Inr (height, width) \<Rightarrow> Inr (py_or height vrt_height, py_or width vrt_width))"

text \<open>
  Lines 218 to 226: \<^verbatim>\<open>vrt_options or {}\<close>, updated with the grid of the view.
\<close>

definition part_vrt_options :: "pydict option \<Rightarrow> crs \<Rightarrow> affine \<Rightarrow> int \<Rightarrow> int \<Rightarrow> pydict" where
  "part_vrt_options vrt_options dst_crs vrt_transform vrt_width vrt_height =
     (case vrt_options of Some d \<Rightarrow> d | None \<Rightarrow> Map.empty) ++
     [''crs'' \<mapsto> PyCRS dst_crs,
      ''transform'' \<mapsto> PyAffine vrt_transform,
      ''width'' \<mapsto> PyInt vrt_width,
      ''height'' \<mapsto> PyInt vrt_height]"

definition part ::
  "env \<Rightarrow> dataset \<Rightarrow> bbox \<Rightarrow> int option \<Rightarrow> int option \<Rightarrow> int \<Rightarrow> crs option \<Rightarrow> crs option
     \<Rightarrow> real option \<Rightarrow> pydict option \<Rightarrow> int option \<Rightarrow> read_kwargs
     \<Rightarrow> py_error + (data_array \<times> mask_array)" where
  "part E src_dst bounds height width padding dst_crs bounds_crs minimum_overlap vrt_options
        max_size kwargs =
     (let dst_crs = part_dst_crs src_dst dst_crs;
          bounds = part_bounds E dst_crs bounds_crs bounds
      in case part_overlap E src_dst dst_crs bounds minimum_overlap of
           Inl err \<Rightarrow> Inl err
         | Inr _ \<Rightarrow>
             (case get_vrt_transform E src_dst bounds height width dst_crs of
                (vrt_transform, vrt_width, vrt_height) \<Rightarrow>
                  (case part_out_size max_size height width vrt_width vrt_height of
                     Inl err \<Rightarrow> Inl err
                   | Inr (out_height, out_width) \<Rightarrow>
                       (case part_padding E src_dst bounds dst_crs padding out_height out_width
                               vrt_transform vrt_width vrt_height of
                          (vrt_transform, vrt_width, vrt_height, window) \<Rightarrow>
                            read E src_dst (Some out_height) (Some out_width)
                              (kw_indexes kwargs) (Some window)
                              (kw_force_binary_mask kwargs) (kw_nodata kwargs)
                              (kw_unscale kwargs) (kw_resampling_method kwargs)
                              (Some (part_vrt_options vrt_options dst_crs vrt_transform
                                       vrt_width vrt_height))
                              (kw_post_process kwargs)))))"

section \<open>preview\<close>

text \<open>Lines 258 to 268: the (height, width) handed to \<^verbatim>\<open>read\<close>.\<close>

definition preview_size ::
  "dataset \<Rightarrow> int \<Rightarrow> int option \<Rightarrow> int option \<Rightarrow> py_error + (int option \<times> int option)" where
  "preview_size src_dst max_size height width =
     (if \<not> truthy height \<and> \<not> truthy width then
        (if max (ds_height src_dst) (ds_width src_dst) < max_size then
           Inr (Some (ds_height src_dst), Some (ds_width src_dst))
         else if ds_width src_dst = 0 then Inl ZeroDivisionError
         else
           (let ratio = real_of_int (ds_height src_dst) / real_of_int (ds_width src_dst)
            in if ratio > 1 then
                 (let height = max_size;
                      width = \<lceil>real_of_int height / ratio\<rceil>
                  in Inr (Some height, Some width))
               else
                 (let width = max_size;
                      height = \<lceil>real_of_int width * ratio\<rceil>
                  in Inr (Some height, Some width))))
      else Inr (height, width))"

text \<open>
  The keyword arguments of \<^verbatim>\<open>preview\<close> may also carry \<^verbatim>\<open>window\<close> and
  \<^verbatim>\<open>vrt_options\<close>, which \<^verbatim>\<open>part\<close> sets itself.
\<close>

definition preview ::
  "env \<Rightarrow> dataset \<Rightarrow> int \<Rightarrow> int option \<Rightarrow> int option \<Rightarrow> window option \<Rightarrow> pydict option \<Rightarrow> read_kwargs
     \<Rightarrow> py_error + (data_array \<times> mask_array)" where
  "preview E src_dst max_size height width window vrt_options kwargs =
     (case preview_size src_dst max_size height width of
        Inl err \<Rightarrow> Inl err
      | Inr (height, width) \<Rightarrow>
          read E src_dst height width (kw_indexes kwargs) window
            (kw_force_binary_mask kwargs) (kw_nodata kwargs) (kw_unscale kwargs)
            (kw_resampling_method kwargs) vrt_options (kw_post_process kwargs))"

section \<open>point\<close>

text \<open>Lines 319 to 331: the parameters of the virtual view, as in \<^verbatim>\<open>read\<close>.\<close>

definition point_vrt_params :: "env \<Rightarrow> dataset \<Rightarrow> real option \<Rightarrow> string \<Rightarrow> pydict option \<Rightarrow> pydict" where
  "point_vrt_params E src_dst nodata resampling_method vrt_options =
     (let vrt_params = [''add_alpha'' \<mapsto> PyBool True, ''resampling'' \<mapsto> PyResampling resampling_method];
          nodata = (case nodata of Some v \<Rightarrow> Some v | None \<Rightarrow> ds_nodata src_dst);
          vrt_params = (case nodata of
                          Some v \<Rightarrow> vrt_params ++
                            [''nodata'' \<mapsto> PyNum v, ''add_alpha'' \<mapsto> PyBool False, ''src_nodata'' \<mapsto> PyNum v]
                        | None \<Rightarrow> vrt_params);
          vrt_params = (if has_alpha_band E src_dst
                        then vrt_params ++ [''add_alpha'' \<mapsto> PyBool False] else vrt_params)
      in case vrt_options of Some opts \<Rightarrow> vrt_params ++ opts | None \<Rightarrow> vrt_params)"

text \<open>
  Line 338: \<^verbatim>\<open>values.mask * 255 if masked else numpy.zeros(point_values.shape)\<close>.
  A boolean times 255 is 255 for True and 0 for False.
\<close>

definition point_mask :: "bool \<Rightarrow> masked_array \<Rightarrow> int list" where
  "point_mask masked values =
     (if masked then map (\<lambda>m. (if m then 1 else 0) * 255) (ma_mask values)
      else replicate (length (ma_data values)) 0)"

text \<open>Lines 341 to 347.\<close>

definition unscale_point :: "vrt \<Rightarrow> real list \<Rightarrow> py_error + real list" where
  "unscale_point v point_values =
     (case vrt_scales v of
        [] \<Rightarrow> Inl IndexError
      | scale0 # _ \<Rightarrow>
          (let point_values = map (\<lambda>x. x * scale0) point_values
           in case vrt_offsets v of
                [] \<Rightarrow> Inl IndexError
              | offset0 # _ \<Rightarrow> Inr (map (\<lambda>x. x + offset0) point_values)))"

definition point ::
  "env \<Rightarrow> dataset \<Rightarrow> real \<times> real \<Rightarrow> indexes_arg option \<Rightarrow> crs \<Rightarrow> bool \<Rightarrow> real option \<Rightarrow> bool
     \<Rightarrow> string \<Rightarrow> pydict option \<Rightarrow> point_post_process option \<Rightarrow> py_error + real list" where
  "point E src_dst coordinates indexes coord_crs masked nodata unscale resampling_method
         vrt_options post_process =
     (let indexes = (case indexes of
                       Some (IdxInt i) \<Rightarrow> Some [i]
                     | Some (IdxSeq s) \<Rightarrow> Some s
                     | None \<Rightarrow> None)
      in case (transform_coords E coord_crs (ds_crs src_dst) (fst coordinates) (snd coordinates),
               ds_bounds src_dst) of
           ((lon, lat), (b0, b1, b2, b3)) \<Rightarrow>
             if \<not> ((b0 < lon \<and> lon < b2) \<and> (b1 < lat \<and> lat < b3))
             then Inl (PointOutsideBounds ''Point is outside dataset bounds'')
             else
               (let indexes = (case indexes of Some s \<Rightarrow> s | None \<Rightarrow> ds_indexes src_dst);
                    v = WarpedVRT E src_dst
                          (point_vrt_params E src_dst nodata resampling_method vrt_options);
                    values = vrt_sample v (lon, lat) indexes masked;
                    point_values = ma_data values;
                    msk = point_mask masked values
                in case (if unscale then unscale_point v point_values else Inr point_values) of
                     Inl err \<Rightarrow> Inl err
                   | Inr point_values \<Rightarrow>
                       (case post_process of
                          Some hook \<Rightarrow> Inr (fst (hook point_values msk))
                        | None \<Rightarrow> Inr point_values)))"

section \<open>Predicates of the statements\<close>

text \<open>
  The virtual view synthesises an alpha band when its parameters hold
  \<^verbatim>\<open>add_alpha=True\<close>; a nodata value is active when the key \<^verbatim>\<open>nodata\<close> is bound
  to a value other than None.
\<close>

definition add_alpha_set :: "pydict \<Rightarrow> bool" where
  "add_alpha_set params = (params ''add_alpha'' = Some (PyBool True))"

definition nodata_active :: "pydict \<Rightarrow> bool" where
  "nodata_active params =
     (case params ''nodata'' of None \<Rightarrow> False | Some PyNone \<Rightarrow> False | Some _ \<Rightarrow> True)"

text \<open>The caller's overrides bind neither \<^verbatim>\<open>add_alpha\<close> nor \<^verbatim>\<open>nodata\<close>.\<close>

definition overrides_leave_alpha_nodata :: "pydict option \<Rightarrow> bool" where
  "overrides_leave_alpha_nodata vrt_options =
     (case vrt_options of
        None \<Rightarrow> True
      | Some opts \<Rightarrow> opts ''add_alpha'' = None \<and> opts ''nodata'' = None)"

text \<open>
  numpy's convention for a masked array: a sample is valid where its mask flag is False.
\<close>

definition sample_valid :: "masked_array \<Rightarrow> bool list" where
  "sample_valid values = map (\<lambda>masked_out. \<not> masked_out) (ma_mask values)"

text \<open>Every element of a mask is 0 or 255.\<close>

definition binary_valued :: "mask_array \<Rightarrow> bool" where
  "binary_valued msk = list_all (list_all (\<lambda>m. m = 0 \<or> m = 255)) msk"

text \<open>
  What \<^verbatim>\<open>read\<close> returns for the pair it has computed: the pair itself, or the
  result of the \<^verbatim>\<open>post_process\<close> callable on it (lines 118 to 121).
\<close>

definition returned :: "post_process option \<Rightarrow> data_array \<times> mask_array \<Rightarrow> data_array \<times> mask_array" where
  "returned post_process result =
     (case post_process of
        Some hook \<Rightarrow> hook (fst result) (snd result)
      | None \<Rightarrow> result)"

text \<open>Every band of the array has \<open>height\<close> rows of \<open>width\<close> pixels.\<close>

definition data_has_size :: "data_array \<Rightarrow> int \<Rightarrow> int \<Rightarrow> bool" where
  "data_has_size data height width =
     list_all (\<lambda>band. int (length band) = height \<and>
                        list_all (\<lambda>row. int (length row) = width) band) data"

text \<open>
  The contract of the windowed read of rasterio: given an \<^verbatim>\<open>out_shape\<close> of
  non-negative sizes, the array it returns has that shape.
\<close>

definition honours_out_shape :: "vrt \<Rightarrow> bool" where
  "honours_out_shape v =
     (\<forall>indexes window n h w resampling. 0 \<le> h \<longrightarrow> 0 \<le> w \<longrightarrow>
        length (vrt_read v indexes window (Some (n, h, w)) resampling) = n \<and>
        data_has_size (vrt_read v indexes window (Some (n, h, w)) resampling) h w)"

section \<open>A dataset and collaborators for the examples\<close>

text \<open>
  A single-band dataset of 2048 rows and 1024 columns without nodata and without alpha
  band. Its view reads the constant 5 in the requested output shape (one pixel per band
  when no shape is requested), reports the mask value 1 everywhere, has scale 2 and
  offset -10, and samples 5 as a valid value. Coordinates are not reprojected; the
  computed grid of \<^verbatim>\<open>get_vrt_transform\<close> is 4 columns by 3 rows unless a size is
  given, and no grid is aligned with the internal tiles.
\<close>

definition example_dataset :: dataset where
  "example_dataset =
     \<lparr>ds_crs = ''EPSG:3857'', ds_bounds = (0, 0, 10, 10), ds_height = 2048, ds_width = 1024,
      ds_nodata = None, ds_indexes = [1]\<rparr>"

definition example_vrt :: vrt where
  "example_vrt =
     \<lparr>vrt_colorinterp = [CI_gray], vrt_scales = [2], vrt_offsets = [- 10],
      vrt_read = (\<lambda>indexes window out_shape resampling.
         case out_shape of
           Some (n, h, w) \<Rightarrow> replicate n (replicate (nat h) (replicate (nat w) 5))
         | None \<Rightarrow> map (\<lambda>_. [[5]]) indexes),
      vrt_dataset_mask = (\<lambda>window out_shape resampling.
         case out_shape of
           Some (h, w) \<Rightarrow> replicate (nat h) (replicate (nat w) 1)
         | None \<Rightarrow> [[1]]),
      vrt_sample = (\<lambda>xy indexes masked.
         \<lparr>ma_data = map (\<lambda>_. 5) indexes, ma_mask = map (\<lambda>_. False) indexes\<rparr>)\<rparr>"

definition example_env :: env where
  "example_env =
     \<lparr>transform_bounds = (\<lambda>src_crs dst_crs bounds. bounds),
      transform_coords = (\<lambda>src_crs dst_crs x y. (x, y)),
      get_vrt_transform = (\<lambda>src_dst bounds height width dst_crs.
         case bounds of (l, b, r, t) \<Rightarrow> (Affine 1 0 l 0 (- 1) t, py_or width 4, py_or height 3)),
      is_aligned = (\<lambda>src_dst bounds height width dst_crs. False),
      has_alpha_band = (\<lambda>src_dst. False),
      non_alpha_indexes = ds_indexes,
      WarpedVRT = (\<lambda>src_dst params. example_vrt),
      astype_uint8 = (\<lambda>x. word_of_int \<lfloor>x\<rfloor>)\<rparr>"

text \<open>The defaults of the keyword arguments of \<^verbatim>\<open>read\<close>.\<close>

definition default_kwargs :: read_kwargs where
  "default_kwargs =
     \<lparr>kw_indexes = None, kw_force_binary_mask = True, kw_nodata = None, kw_unscale = False,
      kw_resampling_method = ''nearest'', kw_post_process = None\<rparr>"

section \<open>The virtual view builder\<close>

lemma read_vrt_params_exclusive:
  assumes "overrides_leave_alpha_nodata vrt_options"
  shows "\<not> (add_alpha_set (read_vrt_params E src_dst nodata rs vrt_options) \<and>
            nodata_active (read_vrt_params E src_dst nodata rs vrt_options))"
  using assms
  by (auto simp add: read_vrt_params_def add_alpha_set_def nodata_active_def
      overrides_leave_alpha_nodata_def map_add_def Let_def
      split: option.splits pyval.splits if_splits)

lemma point_vrt_params_exclusive:
  assumes "overrides_leave_alpha_nodata vrt_options"
  shows "\<not> (add_alpha_set (point_vrt_params E src_dst nodata rs vrt_options) \<and>
            nodata_active (point_vrt_params E src_dst nodata rs vrt_options))"
  using assms
  by (auto simp add: point_vrt_params_def add_alpha_set_def nodata_active_def
      overrides_leave_alpha_nodata_def map_add_def Let_def
      split: option.splits pyval.splits if_splits)

text \<open>
  C1, as stated: add\_alpha is never set together with an active nodata, also after the
  caller's overrides are merged. It fails: with nodata 0 and the override
  \<^verbatim>\<open>{"add_alpha": True}\<close> the parameters of \<^verbatim>\<open>read\<close> hold both.
\<close>

theorem vrt_params_override_breaks_exclusion:
  "add_alpha_set (read_vrt_params example_env example_dataset (Some 0) ''nearest''
       (Some [''add_alpha'' \<mapsto> PyBool True])) \<and>
   nodata_active (read_vrt_params example_env example_dataset (Some 0) ''nearest''
       (Some [''add_alpha'' \<mapsto> PyBool True]))"
  by (simp add: read_vrt_params_def add_alpha_set_def nodata_active_def example_env_def
      example_dataset_def map_add_def Let_def)

text \<open>
  C1, amended: when the caller's overrides bind neither \<^verbatim>\<open>add_alpha\<close> nor
  \<^verbatim>\<open>nodata\<close> (no overrides at all included), the parameters that \<^verbatim>\<open>read\<close> and
  \<^verbatim>\<open>point\<close> build never hold add\_alpha together with an active nodata.
\<close>

theorem vrt_params_mutual_exclusion:
  assumes "overrides_leave_alpha_nodata vrt_options"
  shows "\<not> (add_alpha_set (read_vrt_params E src_dst nodata rs vrt_options) \<and>
            nodata_active (read_vrt_params E src_dst nodata rs vrt_options)) \<and>
         \<not> (add_alpha_set (point_vrt_params E src_dst nodata rs vrt_options) \<and>
            nodata_active (point_vrt_params E src_dst nodata rs vrt_options))"
  using assms read_vrt_params_exclusive point_vrt_params_exclusive by blast

theorem vrt_params_mutual_exclusion_witness:
  "overrides_leave_alpha_nodata (Some [''crs'' \<mapsto> PyCRS ''EPSG:4326'']) \<and>
   \<not> (add_alpha_set (read_vrt_params example_env example_dataset (Some 0) ''nearest''
          (Some [''crs'' \<mapsto> PyCRS ''EPSG:4326''])) \<and>
      nodata_active (read_vrt_params example_env example_dataset (Some 0) ''nearest''
          (Some [''crs'' \<mapsto> PyCRS ''EPSG:4326'']))) \<and>
   \<not> (add_alpha_set (point_vrt_params example_env example_dataset (Some 0) ''nearest''
          (Some [''crs'' \<mapsto> PyCRS ''EPSG:4326''])) \<and>
      nodata_active (point_vrt_params example_env example_dataset (Some 0) ''nearest''
          (Some [''crs'' \<mapsto> PyCRS ''EPSG:4326''])))"
proof -
  have ov: "overrides_leave_alpha_nodata (Some [''crs'' \<mapsto> PyCRS ''EPSG:4326''])"
    by (simp add: overrides_leave_alpha_nodata_def)
  show ?thesis
    using ov vrt_params_mutual_exclusion [OF ov, of example_env example_dataset "Some 0" "''nearest''"]
    by blast
qed

section \<open>The overlap check of part\<close>













section \<open>The output size of preview\<close>






text \<open>
  C9: the overlap check must not raise a division by zero on degenerate bounds. The code
  does: for the box (0, 0, 0, 10), of zero width, and the threshold 0.5, line 178 divides
  by (0 - 0) * (10 - 0) and \<^verbatim>\<open>part\<close> ends with ZeroDivisionError.
\<close>

theorem part_degenerate_bounds_zero_division:
  "part example_env example_dataset (0, 0, 0, 10) None None 0 None None (Some (1 / 2)) None None
     default_kwargs = Inl ZeroDivisionError"
  by (simp add: part_def part_overlap_def part_bounds_def truthy_float_def bounds_area_def)

section \<open>The output size of part\<close>









section \<open>The read pipeline\<close>

text \<open>
  \<^verbatim>\<open>read\<close> as one case distinction: the data and mask of the windowed read, the
  optional unscaling, the optional binary mask, then the optional callable.
\<close>

lemma binary_mask_valued: "binary_valued (binary_mask msk)"
  by (auto simp add: binary_valued_def binary_mask_def list_all_iff)

lemma read_normal:
  "read E src_dst height width indexes window force_binary_mask nodata unscale rs vrt_options post_process =
     (case read_data_mask E (WarpedVRT E src_dst (read_vrt_params E src_dst nodata rs vrt_options))
             (read_indexes E src_dst indexes) window
             (read_out_shape (length (read_indexes E src_dst indexes)) height width)
             (read_mask_out_shape height width) rs of
        Inl err \<Rightarrow> Inl err
      | Inr (data, msk) \<Rightarrow>
          (case (if unscale
                 then unscale_data (WarpedVRT E src_dst (read_vrt_params E src_dst nodata rs vrt_options)) data
                 else Inr data) of
             Inl err \<Rightarrow> Inl err
           | Inr data' \<Rightarrow>
               Inr (returned post_process
                      (data', if force_binary_mask then binary_mask msk else msk))))"
  by (simp add: read_def Let_def returned_def split: sum.splits prod.splits option.splits)

lemma read_True_returned:
  assumes "read E src_dst height width indexes window True nodata unscale rs vrt_options post_process = Inr r"
  shows "\<exists>data msk. binary_valued msk \<and> r = returned post_process (data, msk)"
  using assms binary_mask_valued unfolding read_normal
  by (fastforce split: sum.splits prod.splits)

lemma read_binarizes:
  assumes "read E src_dst height width indexes window False nodata unscale rs vrt_options None = Inr (data, msk)"
  shows "read E src_dst height width indexes window True nodata unscale rs vrt_options post_process
           = Inr (returned post_process (data, binary_mask msk))"
  using assms unfolding read_normal
  by (auto simp add: returned_def split: sum.splits prod.splits)

lemma part_is_read:
  assumes "part E src_dst bounds height width padding dst_crs bounds_crs minimum_overlap vrt_options
        max_size kwargs = Inr r"
  shows "\<exists>h w win vo. read E src_dst h w (kw_indexes kwargs) win (kw_force_binary_mask kwargs)
     (kw_nodata kwargs) (kw_unscale kwargs) (kw_resampling_method kwargs) vo (kw_post_process kwargs) = Inr r"
  using assms
  by (auto simp add: part_def Let_def split: sum.splits prod.splits)

lemma preview_is_read:
  assumes "preview E src_dst max_size height width window vrt_options kwargs = Inr r"
  shows "\<exists>h w. read E src_dst h w (kw_indexes kwargs) window (kw_force_binary_mask kwargs)
     (kw_nodata kwargs) (kw_unscale kwargs) (kw_resampling_method kwargs) vrt_options (kw_post_process kwargs) = Inr r"
  using assms
  by (auto simp add: preview_def split: sum.splits prod.splits)

lemma example_read_raw:
  "read example_env example_dataset None None None None fbm None False ''nearest'' None None
     = Inr ([[[5]]], if fbm then [[255]] else [[1]])"
  by (simp add: read_def read_indexes_def read_data_mask_def read_out_shape_def read_mask_out_shape_def
      example_env_def example_vrt_def example_dataset_def binary_mask_def)

text \<open>
  C8, as stated: with force\_binary\_mask every element of the returned mask is 0 or
  255. It fails for a call with a \<^verbatim>\<open>post_process\<close> callable, whose result is returned
  as it is: a callable that sets every mask element to 7 makes \<^verbatim>\<open>read\<close> return 7.
\<close>

theorem read_post_process_mask_not_binary:
  "read example_env example_dataset None None None None True None False ''nearest'' None
     (Some (\<lambda>data msk. (data, map (map (\<lambda>m. 7)) msk))) = Inr ([[[5]]], [[7]]) \<and>
   \<not> binary_valued [[7]]"
  by (simp add: read_def read_indexes_def read_data_mask_def read_out_shape_def read_mask_out_shape_def
      example_env_def example_vrt_def example_dataset_def binary_mask_def binary_valued_def)

text \<open>
  C8, amended: with force\_binary\_mask the mask that \<^verbatim>\<open>read\<close> computes holds only 0
  and 255; it is the returned mask when no \<^verbatim>\<open>post_process\<close> is given, and the mask
  handed to \<^verbatim>\<open>post_process\<close> otherwise. The same holds for \<^verbatim>\<open>part\<close> and
  \<^verbatim>\<open>preview\<close>, which end in \<^verbatim>\<open>read\<close>. The mask is the one of the same call
  without force\_binary\_mask, with every non-zero element replaced by 255.
\<close>

theorem read_force_binary_mask:
  "(read E src_dst height width indexes window True nodata unscale rs vrt_options post_process = Inr r \<longrightarrow>
      (\<exists>data msk. binary_valued msk \<and> r = returned post_process (data, msk))) \<and>
   (kw_force_binary_mask kwargs \<and>
    part E src_dst bounds height width padding dst_crs bounds_crs minimum_overlap vrt_options
        max_size kwargs = Inr r \<longrightarrow>
      (\<exists>data msk. binary_valued msk \<and> r = returned (kw_post_process kwargs) (data, msk))) \<and>
   (kw_force_binary_mask kwargs \<and>
    preview E src_dst preview_max_size height width window vrt_options kwargs = Inr r \<longrightarrow>
      (\<exists>data msk. binary_valued msk \<and> r = returned (kw_post_process kwargs) (data, msk))) \<and>
   (read E src_dst height width indexes window False nodata unscale rs vrt_options None = Inr (raw, raw_mask) \<longrightarrow>
      read E src_dst height width indexes window True nodata unscale rs vrt_options post_process
        = Inr (returned post_process (raw, binary_mask raw_mask))) \<and>
   binary_mask raw_mask = map (map (\<lambda>m. if m \<noteq> 0 then 255 else 0)) raw_mask \<and>
   binary_valued (binary_mask raw_mask)"
proof (intro conjI impI)
  assume "read E src_dst height width indexes window True nodata unscale rs vrt_options post_process = Inr r"
  then show "\<exists>data msk. binary_valued msk \<and> r = returned post_process (data, msk)"
    by (rule read_True_returned)
next
  assume a: "kw_force_binary_mask kwargs \<and>
    part E src_dst bounds height width padding dst_crs bounds_crs minimum_overlap vrt_options
        max_size kwargs = Inr r"
  then have "part E src_dst bounds height width padding dst_crs bounds_crs minimum_overlap vrt_options
        max_size kwargs = Inr r" by simp
  from part_is_read [OF this]
  obtain h w win vo where "read E src_dst h w (kw_indexes kwargs) win (kw_force_binary_mask kwargs)
     (kw_nodata kwargs) (kw_unscale kwargs) (kw_resampling_method kwargs) vo (kw_post_process kwargs) = Inr r"
    by blast
  with a have "read E src_dst h w (kw_indexes kwargs) win True
     (kw_nodata kwargs) (kw_unscale kwargs) (kw_resampling_method kwargs) vo (kw_post_process kwargs) = Inr r"
    by simp
  then show "\<exists>data msk. binary_valued msk \<and> r = returned (kw_post_process kwargs) (data, msk)"
    by (rule read_True_returned)
next
  assume a: "kw_force_binary_mask kwargs \<and>
    preview E src_dst preview_max_size height width window vrt_options kwargs = Inr r"
  then have "preview E src_dst preview_max_size height width window vrt_options kwargs = Inr r" by simp
  from preview_is_read [OF this]
  obtain h w where "read E src_dst h w (kw_indexes kwargs) window (kw_force_binary_mask kwargs)
     (kw_nodata kwargs) (kw_unscale kwargs) (kw_resampling_method kwargs) vrt_options (kw_post_process kwargs) = Inr r"
    by blast
  with a have "read E src_dst h w (kw_indexes kwargs) window True
     (kw_nodata kwargs) (kw_unscale kwargs) (kw_resampling_method kwargs) vrt_options (kw_post_process kwargs) = Inr r"
    by simp
  then show "\<exists>data msk. binary_valued msk \<and> r = returned (kw_post_process kwargs) (data, msk)"
    by (rule read_True_returned)
next
  assume "read E src_dst height width indexes window False nodata unscale rs vrt_options None = Inr (raw, raw_mask)"
  then show "read E src_dst height width indexes window True nodata unscale rs vrt_options post_process
        = Inr (returned post_process (raw, binary_mask raw_mask))"
    by (rule read_binarizes)
next
  show "binary_mask raw_mask = map (map (\<lambda>m. if m \<noteq> 0 then 255 else 0)) raw_mask"
    by (simp add: binary_mask_def)
next
  show "binary_valued (binary_mask raw_mask)" by (rule binary_mask_valued)
qed

text \<open>
  The example view reports the mask value 1: without force\_binary\_mask it is returned,
  with it the mask is 255.
\<close>

theorem read_force_binary_mask_witness:
  "read example_env example_dataset None None None None True None False ''nearest'' None None
     = Inr ([[[5]]], [[255]]) \<and>
   binary_valued [[255]] \<and>
   read example_env example_dataset None None None None False None False ''nearest'' None None
     = Inr ([[[5]]], [[1]])"
proof -
  have raw: "read example_env example_dataset None None None None False None False ''nearest'' None None
     = Inr ([[[5]]], [[1]])"
    using example_read_raw [of False] by simp
  have bm: "binary_mask [[1]] = [[255]]" by (simp add: binary_mask_def)
  from read_force_binary_mask [of example_env example_dataset None None None None None False
      "''nearest''" None None "([[[5]]], [[255]])" default_kwargs "(0, 0, 4, 3)" 0 None None None None 1024
      "[[[5]]]" "[[1]]"] raw bm
  show ?thesis by (simp add: returned_def)
qed

section \<open>Unscaling\<close>










section \<open>One of height and width\<close>

text \<open>
  C10: when exactly one of height and width is given (a non-zero value, the other None),
  \<^verbatim>\<open>read\<close> requests no output shape for the data or the mask and returns what it
  returns with neither given; \<^verbatim>\<open>preview\<close> skips its max\_size branch, passes height
  and width on unchanged, and so returns what \<^verbatim>\<open>read\<close> returns at native resolution.
\<close>

theorem single_dimension_no_resize:
  assumes "(truthy height \<and> width = None) \<or> (height = None \<and> truthy width)"
  shows "read_out_shape n height width = None \<and>
         read_mask_out_shape height width = None \<and>
         read E src_dst height width indexes window fbm nodata unscale rs vrt_options post_process =
           read E src_dst None None indexes window fbm nodata unscale rs vrt_options post_process \<and>
         preview_size src_dst max_size height width = Inr (height, width) \<and>
         preview E src_dst max_size height width window vrt_options kwargs =
           read E src_dst None None (kw_indexes kwargs) window (kw_force_binary_mask kwargs)
             (kw_nodata kwargs) (kw_unscale kwargs) (kw_resampling_method kwargs) vrt_options
             (kw_post_process kwargs)"
proof -
  have os: "read_out_shape k height width = None" for k
    using assms by (auto simp add: read_out_shape_def split: option.splits)
  have ms: "read_mask_out_shape height width = None"
    using assms by (auto simp add: read_mask_out_shape_def split: option.splits)
  have os0: "read_out_shape k None None = None" for k by (simp add: read_out_shape_def)
  have ms0: "read_mask_out_shape None None = None" by (simp add: read_mask_out_shape_def)
  have rd: "read E src_dst height width ix win b nd us r vo pp =
           read E src_dst None None ix win b nd us r vo pp" for ix win b nd us r vo pp
    unfolding read_normal by (simp only: os ms os0 ms0)
  have ps: "preview_size src_dst max_size height width = Inr (height, width)"
    using assms by (auto simp add: preview_size_def)
  show ?thesis
    by (simp add: os ms rd ps preview_def)
qed

text \<open>
  \<^verbatim>\<open>preview\<close> with only width 512 on the example dataset: one pixel per band, the
  example view's answer to a read without output shape.
\<close>

theorem single_dimension_no_resize_witness:
  "((truthy None \<and> Some 512 = (None::int option)) \<or> ((None::int option) = None \<and> truthy (Some 512))) \<and>
   read_out_shape 1 None (Some 512) = None \<and>
   preview example_env example_dataset 1024 None (Some 512) None None default_kwargs =
     Inr ([[[5]]], [[255]])"
proof -
  have h: "(truthy None \<and> Some 512 = (None::int option)) \<or> ((None::int option) = None \<and> truthy (Some 512))"
    by (simp add: truthy_def)
  from single_dimension_no_resize [OF h, where n = 1 and E = example_env and src_dst = example_dataset
      and max_size = 1024 and window = None and vrt_options = None and kwargs = default_kwargs]
    h example_read_raw [of True]
  show ?thesis by (simp add: default_kwargs_def)
qed

section \<open>The mask of point\<close>

text \<open>
  C3, as stated: with masked mode on the mask is 255 where the sample is valid. It fails:
  for a valid sample (mask flag False) the mask is 0. The callable of the third conjunct
  returns the mask it receives in place of the data.
\<close>

theorem point_mask_valid_sample_is_zero:
  "sample_valid \<lparr>ma_data = [5], ma_mask = [False]\<rparr> = [True] \<and>
   point_mask True \<lparr>ma_data = [5], ma_mask = [False]\<rparr> = [0] \<and>
   point example_env example_dataset (5, 5) None ''EPSG:3857'' True None False ''nearest'' None
     (Some (\<lambda>vals msk. (map real_of_int msk, msk))) = Inr [0]"
  by (simp add: sample_valid_def point_mask_def point_def example_env_def example_vrt_def example_dataset_def)

text \<open>
  C3, amended: with masked mode on, the mask of \<^verbatim>\<open>point\<close> is 255 for each band whose
  sample is masked out, that is not valid, and 0 for each valid one; with masked mode
  off it is zero for every band. This is the mask that \<^verbatim>\<open>post_process\<close> receives.
\<close>

theorem point_mask_rule:
  "point_mask True smp = map (\<lambda>valid. if valid then 0 else 255) (sample_valid smp) \<and>
   point_mask False smp = replicate (length (ma_data smp)) 0 \<and>
   (point E src_dst coordinates indexes coord_crs masked nodata unscale rs vrt_options (Some hook) = Inr r \<longrightarrow>
     (\<exists>vals lon lat idx.
        r = fst (hook vals
                  (point_mask masked
                     (vrt_sample (WarpedVRT E src_dst (point_vrt_params E src_dst nodata rs vrt_options))
                        (lon, lat) idx masked)))))"
proof (intro conjI impI)
  show "point_mask True smp = map (\<lambda>valid. if valid then 0 else 255) (sample_valid smp)"
    by (simp add: point_mask_def sample_valid_def comp_def)
next
  show "point_mask False smp = replicate (length (ma_data smp)) 0"
    by (simp add: point_mask_def)
next
  assume "point E src_dst coordinates indexes coord_crs masked nodata unscale rs vrt_options (Some hook) = Inr r"
  then show "\<exists>vals lon lat idx.
        r = fst (hook vals
                  (point_mask masked
                     (vrt_sample (WarpedVRT E src_dst (point_vrt_params E src_dst nodata rs vrt_options))
                        (lon, lat) idx masked)))"
    by (auto simp add: point_def Let_def split: prod.splits if_splits sum.splits)
qed

text \<open>A sample of two bands, the first masked out and the second valid.\<close>

theorem point_mask_rule_witness:
  "point example_env example_dataset (5, 5) None ''EPSG:3857'' True None False ''nearest'' None
     (Some (\<lambda>vals msk. (map real_of_int msk, msk))) = Inr [0] \<and>
   point_mask True \<lparr>ma_data = [5, 6], ma_mask = [True, False]\<rparr> = [255, 0] \<and>
   point_mask False \<lparr>ma_data = [5, 6], ma_mask = [True, False]\<rparr> = [0, 0]"
proof -
  have p: "point example_env example_dataset (5, 5) None ''EPSG:3857'' True None False ''nearest'' None
     (Some (\<lambda>vals msk. (map real_of_int msk, msk))) = Inr [0]"
    by (simp add: point_mask_def point_def example_env_def example_vrt_def example_dataset_def)
  from point_mask_rule [where smp = "\<lparr>ma_data = [5, 6], ma_mask = [True, False]\<rparr>"
       and E = example_env and src_dst = example_dataset] p
  show ?thesis by (simp add: sample_valid_def numeral_2_eq_2)
qed

section \<open>The padding of part\<close>

lemma part_padding_applied:
  assumes "0 < padding" and "\<not> is_aligned E src_dst bounds out_height out_width dst_crs"
  shows "part_padding E src_dst bounds dst_crs padding out_height out_width T vw vh =
           (affine_mul T (translation (- real_of_int padding) (- real_of_int padding)),
            vw + 2 * padding, vh + 2 * padding, Window padding padding vw vh)"
  using assms by (simp add: part_padding_def Let_def)

lemma translated_origin:
  "affine_apply (affine_mul T (translation (- p) (- p))) (x, y) = affine_apply T (x - p, y - p)"
  by (cases T) (simp add: translation_def algebra_simps)

lemma data_has_size_map3: "data_has_size (map3 g data) h w = data_has_size data h w"
  by (simp add: data_has_size_def map3_def list_all_iff)

lemma data_has_size_butlast: "data_has_size data h w \<Longrightarrow> data_has_size (butlast data) h w"
  by (auto simp add: data_has_size_def list_all_iff dest: in_set_butlastD)

lemma read_data_mask_size:
  assumes "honours_out_shape v" and "0 \<le> h" and "0 \<le> w"
      and "read_data_mask E v indexes window (Some (n, h, w)) mos rs = Inr (data, msk)"
  shows "data_has_size data h w"
proof (cases "CI_alpha \<in> set (vrt_colorinterp v)")
  case True
  let ?ix = "indexes @ [int (index_of CI_alpha (vrt_colorinterp v)) + 1]"
  from assms(1-3) have "data_has_size (vrt_read v ?ix window (Some (length ?ix, h, w)) rs) h w"
    unfolding honours_out_shape_def by blast
  then have "data_has_size (butlast (vrt_read v ?ix window (Some (length ?ix, h, w)) rs)) h w"
    by (rule data_has_size_butlast)
  with True assms(4) show ?thesis
    by (auto simp add: read_data_mask_def Let_def split: if_splits)
next
  case False
  from assms(1-3) have "data_has_size (vrt_read v indexes window (Some (n, h, w)) rs) h w"
    unfolding honours_out_shape_def by blast
  with False assms(4) show ?thesis
    by (auto simp add: read_data_mask_def)
qed

lemma unscale_data_size:
  "unscale_data v data = Inr data' \<Longrightarrow> data_has_size data' h w = data_has_size data h w"
  by (auto simp add: unscale_data_def Let_def data_has_size_map3 split: list.splits)

lemma read_sized:
  assumes "\<forall>params. honours_out_shape (WarpedVRT E src_dst params)" and "0 < h" and "0 < w"
      and "read E src_dst (Some h) (Some w) indexes window fbm nodata unscale rs vrt_options post_process = Inr r"
  shows "\<exists>data msk. data_has_size data h w \<and> r = returned post_process (data, msk)"
proof -
  let ?v = "WarpedVRT E src_dst (read_vrt_params E src_dst nodata rs vrt_options)"
  let ?n = "length (read_indexes E src_dst indexes)"
  have os: "read_out_shape ?n (Some h) (Some w) = Some (?n, h, w)"
    using assms(2,3) by (simp add: read_out_shape_def)
  from assms(4) obtain raw msk where
    rd: "read_data_mask E ?v (read_indexes E src_dst indexes) window (Some (?n, h, w))
           (read_mask_out_shape (Some h) (Some w)) rs = Inr (raw, msk)"
    unfolding read_normal os by (auto split: sum.splits)
  have hv: "honours_out_shape ?v" using assms(1) by blast
  have sz: "data_has_size raw h w"
    using read_data_mask_size [OF hv _ _ rd] assms(2,3) by simp
  from assms(4) rd obtain data' where
    us: "(if unscale then unscale_data ?v raw else Inr raw) = Inr data'"
    and r: "r = returned post_process (data', if fbm then binary_mask msk else msk)"
    unfolding read_normal os by (auto split: sum.splits)
  from us sz have "data_has_size data' h w"
    by (auto simp add: unscale_data_size split: if_splits)
  with r show ?thesis by blast
qed

lemma example_honours: "honours_out_shape (WarpedVRT example_env example_dataset params)"
  by (simp add: honours_out_shape_def example_env_def example_vrt_def data_has_size_def list_all_iff)

lemma example_part:
  "part example_env example_dataset (0, 0, 4, 3) None None 1 None None None None None
     (default_kwargs\<lparr>kw_post_process := pp\<rparr>)
   = Inr (returned pp ([[[5, 5, 5, 5], [5, 5, 5, 5], [5, 5, 5, 5]]],
          [[255, 255, 255, 255], [255, 255, 255, 255], [255, 255, 255, 255]]))"
  by (simp add: part_def part_overlap_def truthy_float_def part_dst_crs_def part_bounds_def
      part_out_size_def part_max_size_def truthy_def py_or_def part_padding_def
      read_normal read_indexes_def read_data_mask_def read_out_shape_def read_mask_out_shape_def
      example_env_def example_vrt_def example_dataset_def default_kwargs_def binary_mask_def
      eval_nat_numeral)

text \<open>
  C5, as stated: with padding and a grid that is not aligned, the returned data has the
  unpadded height and width. It fails for a call with a \<^verbatim>\<open>post_process\<close> callable:
  on the example dataset, whose view honours the requested shape, the request is 3 rows
  by 4 columns, and a callable that keeps the first row of each band makes
  \<^verbatim>\<open>part\<close> return one row.
\<close>

theorem part_padding_post_process_reshapes:
  "\<not> is_aligned example_env example_dataset (0, 0, 4, 3) 3 4 ''EPSG:3857'' \<and>
   honours_out_shape (WarpedVRT example_env example_dataset Map.empty) \<and>
   part example_env example_dataset (0, 0, 4, 3) None None 1 None None None None None
     (default_kwargs\<lparr>kw_post_process := Some (\<lambda>data msk. (map (take 1) data, msk))\<rparr>)
   = Inr ([[[5, 5, 5, 5]]],
          [[255, 255, 255, 255], [255, 255, 255, 255], [255, 255, 255, 255]]) \<and>
   \<not> data_has_size [[[5, 5, 5, 5]]] 3 4"
  using example_honours [of Map.empty]
    example_part [of "Some (\<lambda>data msk. (map (take 1) data, msk))"]
  by (simp add: returned_def data_has_size_def example_env_def)

text \<open>
  C5, amended: let the overlap check pass, \<^verbatim>\<open>get_vrt_transform\<close> return the transform
  T and the grid vw by vh, the output size be oh by ow, the padding be positive and the
  grid not aligned. Then \<^verbatim>\<open>part\<close> is the \<^verbatim>\<open>read\<close> of the output size oh by ow
  through the window (padding, padding, vw, vh) of a view whose transform is T times the
  translation by (-padding, -padding), so that its pixel (x, y) is the pixel
  (x - padding, y - padding) of T, and whose width and height are vw + 2 padding and
  vh + 2 padding. Where the windowed read honours the requested shape, the data that
  \<^verbatim>\<open>read\<close> computes has oh rows and ow columns in every band; it is the returned data
  when no \<^verbatim>\<open>post_process\<close> is given, and the data handed to it otherwise.
\<close>

theorem part_padding_shape:
  assumes "0 < padding"
      and "dst = part_dst_crs src_dst dst_crs"
      and "bnds = part_bounds E dst bounds_crs bounds"
      and "part_overlap E src_dst dst bnds minimum_overlap = Inr ()"
      and "get_vrt_transform E src_dst bnds height width dst = (T, vw, vh)"
      and "part_out_size max_size height width vw vh = Inr (oh, ow)"
      and "\<not> is_aligned E src_dst bnds oh ow dst"
  shows "part E src_dst bounds height width padding dst_crs bounds_crs minimum_overlap vrt_options
           max_size kwargs =
         read E src_dst (Some oh) (Some ow) (kw_indexes kwargs)
           (Some (Window padding padding vw vh))
           (kw_force_binary_mask kwargs) (kw_nodata kwargs) (kw_unscale kwargs)
           (kw_resampling_method kwargs)
           (Some (part_vrt_options vrt_options dst
                    (affine_mul T (translation (- real_of_int padding) (- real_of_int padding)))
                    (vw + 2 * padding) (vh + 2 * padding)))
           (kw_post_process kwargs) \<and>
         affine_apply (affine_mul T (translation (- real_of_int padding) (- real_of_int padding))) (x, y)
           = affine_apply T (x - real_of_int padding, y - real_of_int padding) \<and>
         ((\<forall>params. honours_out_shape (WarpedVRT E src_dst params)) \<and> 0 < oh \<and> 0 < ow \<and>
          part E src_dst bounds height width padding dst_crs bounds_crs minimum_overlap vrt_options
            max_size kwargs = Inr r \<longrightarrow>
          (\<exists>data msk. data_has_size data oh ow \<and> r = returned (kw_post_process kwargs) (data, msk)))"
proof -
  have pp: "part_padding E src_dst bnds dst padding oh ow T vw vh =
           (affine_mul T (translation (- real_of_int padding) (- real_of_int padding)),
            vw + 2 * padding, vh + 2 * padding, Window padding padding vw vh)"
    using assms(1,7) by (rule part_padding_applied)
  have eq: "part E src_dst bounds height width padding dst_crs bounds_crs minimum_overlap vrt_options
           max_size kwargs =
         read E src_dst (Some oh) (Some ow) (kw_indexes kwargs)
           (Some (Window padding padding vw vh))
           (kw_force_binary_mask kwargs) (kw_nodata kwargs) (kw_unscale kwargs)
           (kw_resampling_method kwargs)
           (Some (part_vrt_options vrt_options dst
                    (affine_mul T (translation (- real_of_int padding) (- real_of_int padding)))
                    (vw + 2 * padding) (vh + 2 * padding)))
           (kw_post_process kwargs)"
    using assms(4,5,6) pp unfolding part_def assms(2) [symmetric] Let_def assms(3) [symmetric]
    by simp
  show ?thesis
  proof (intro conjI impI)
    show "part E src_dst bounds height width padding dst_crs bounds_crs minimum_overlap vrt_options
           max_size kwargs =
         read E src_dst (Some oh) (Some ow) (kw_indexes kwargs)
           (Some (Window padding padding vw vh))
           (kw_force_binary_mask kwargs) (kw_nodata kwargs) (kw_unscale kwargs)
           (kw_resampling_method kwargs)
           (Some (part_vrt_options vrt_options dst
                    (affine_mul T (translation (- real_of_int padding) (- real_of_int padding)))
                    (vw + 2 * padding) (vh + 2 * padding)))
           (kw_post_process kwargs)" by (rule eq)
  next
    show "affine_apply (affine_mul T (translation (- real_of_int padding) (- real_of_int padding))) (x, y)
           = affine_apply T (x - real_of_int padding, y - real_of_int padding)"
      by (rule translated_origin)
  next
    assume a: "(\<forall>params. honours_out_shape (WarpedVRT E src_dst params)) \<and> 0 < oh \<and> 0 < ow \<and>
          part E src_dst bounds height width padding dst_crs bounds_crs minimum_overlap vrt_options
            max_size kwargs = Inr r"
    then have h: "\<forall>params. honours_out_shape (WarpedVRT E src_dst params)" and "0 < oh" and "0 < ow"
      and rd: "read E src_dst (Some oh) (Some ow) (kw_indexes kwargs)
           (Some (Window padding padding vw vh))
           (kw_force_binary_mask kwargs) (kw_nodata kwargs) (kw_unscale kwargs)
           (kw_resampling_method kwargs)
           (Some (part_vrt_options vrt_options dst
                    (affine_mul T (translation (- real_of_int padding) (- real_of_int padding)))
                    (vw + 2 * padding) (vh + 2 * padding)))
           (kw_post_process kwargs) = Inr r"
      using eq by simp_all
    from read_sized [OF h \<open>0 < oh\<close> \<open>0 < ow\<close> rd]
    show "\<exists>data msk. data_has_size data oh ow \<and> r = returned (kw_post_process kwargs) (data, msk)" .
  qed
qed

text \<open>The box (0, 0, 4, 3) on the example dataset with padding 1: a grid of 4 by 3.\<close>

theorem part_padding_shape_witness:
  "(0::int) < 1 \<and>
   part_overlap example_env example_dataset ''EPSG:3857'' (0, 0, 4, 3) None = Inr () \<and>
   get_vrt_transform example_env example_dataset (0, 0, 4, 3) None None ''EPSG:3857''
     = (Affine 1 0 0 0 (- 1) 3, 4, 3) \<and>
   part_out_size None None None 4 3 = Inr (3, 4) \<and>
   \<not> is_aligned example_env example_dataset (0, 0, 4, 3) 3 4 ''EPSG:3857'' \<and>
   (\<forall>params. honours_out_shape (WarpedVRT example_env example_dataset params)) \<and>
   part example_env example_dataset (0, 0, 4, 3) None None 1 None None None None None default_kwargs
     = Inr ([[[5, 5, 5, 5], [5, 5, 5, 5], [5, 5, 5, 5]]],
            [[255, 255, 255, 255], [255, 255, 255, 255], [255, 255, 255, 255]]) \<and>
   data_has_size [[[5, 5, 5, 5], [5, 5, 5, 5], [5, 5, 5, 5]]] 3 4 \<and>
   part example_env example_dataset (0, 0, 4, 3) None None 1 None None None None None default_kwargs
     = read example_env example_dataset (Some 3) (Some 4) None (Some (Window 1 1 4 3)) True None False
         ''nearest''
         (Some (part_vrt_options None ''EPSG:3857''
                  (affine_mul (Affine 1 0 0 0 (- 1) 3) (translation (- 1) (- 1))) 6 5))
         None"
proof -
  have p: "(0::int) < 1" by simp
  have d: "''EPSG:3857'' = part_dst_crs example_dataset None"
    by (simp add: part_dst_crs_def example_dataset_def)
  have b: "(0, 0, 4, 3) = part_bounds example_env ''EPSG:3857'' None (0, 0, 4, 3)"
    by (simp add: part_bounds_def)
  have ov: "part_overlap example_env example_dataset ''EPSG:3857'' (0, 0, 4, 3) None = Inr ()"
    by (simp add: part_overlap_def truthy_float_def)
  have g: "get_vrt_transform example_env example_dataset (0, 0, 4, 3) None None ''EPSG:3857''
     = (Affine 1 0 0 0 (- 1) 3, 4, 3)"
    by (simp add: example_env_def py_or_def)
  have os: "part_out_size None None None 4 3 = Inr (3, 4)"
    by (simp add: part_out_size_def part_max_size_def truthy_def py_or_def)
  have al: "\<not> is_aligned example_env example_dataset (0, 0, 4, 3) 3 4 ''EPSG:3857''"
    by (simp add: example_env_def)
  have ho: "\<forall>params. honours_out_shape (WarpedVRT example_env example_dataset params)"
    using example_honours by blast
  have ex: "part example_env example_dataset (0, 0, 4, 3) None None 1 None None None None None default_kwargs
     = Inr ([[[5, 5, 5, 5], [5, 5, 5, 5], [5, 5, 5, 5]]],
            [[255, 255, 255, 255], [255, 255, 255, 255], [255, 255, 255, 255]])"
    using example_part [of None] by (simp add: returned_def default_kwargs_def)
  note th = part_padding_shape [OF p d b ov g os al, where vrt_options = None
      and kwargs = default_kwargs and x = 0 and y = 0
      and r = "([[[5, 5, 5, 5], [5, 5, 5, 5], [5, 5, 5, 5]]],
            [[255, 255, 255, 255], [255, 255, 255, 255], [255, 255, 255, 255]])"]
  from th [THEN conjunct2, THEN conjunct2] ho ex
  have "\<exists>data msk. data_has_size data 3 4 \<and>
          ([[[5, 5, 5, 5], [5, 5, 5, 5], [5, 5, 5, 5]]],
            [[255, 255, 255, 255], [255, 255, 255, 255], [255, 255, 255, 255]])
         = returned (kw_post_process default_kwargs) (data, msk)"
    by simp
  then obtain data msk where
    sz: "data_has_size data 3 4" and
    eq: "([[[5, 5, 5, 5], [5, 5, 5, 5], [5, 5, 5, 5]]],
            [[255, 255, 255, 255], [255, 255, 255, 255], [255, 255, 255, 255]])
         = returned (kw_post_process default_kwargs) (data, msk)"
    by blast
  from eq have "data = [[[5, 5, 5, 5], [5, 5, 5, 5], [5, 5, 5, 5]]]"
    by (simp add: returned_def default_kwargs_def)
  with sz have s: "data_has_size [[[5, 5, 5, 5], [5, 5, 5, 5], [5, 5, 5, 5]]] 3 4" by simp
  have rd: "part example_env example_dataset (0, 0, 4, 3) None None 1 None None None None None default_kwargs
     = read example_env example_dataset (Some 3) (Some 4) None (Some (Window 1 1 4 3)) True None False
         ''nearest''
         (Some (part_vrt_options None ''EPSG:3857''
                  (affine_mul (Affine 1 0 0 0 (- 1) 3) (translation (- 1) (- 1))) 6 5))
         None"
    using th [THEN conjunct1] by (simp add: default_kwargs_def)
  show ?thesis
    using p ov g os al ho ex s rd by blast
qed

end
